theory Spec2Isabelle
  imports Main
begin

text \<open>
  A Telegram inline bot in one JavaScript module. The sources hold three variants of that
  module: \<open>src/unnamed/part_000\<close> (four result shapes, a restricted webhook registration)
  and two in \<open>src/index.js\<close> (the first answers with URL audio only; the second adds cached
  audio, the \<open>/start\<close> payload and the ingestion of direct messages). Each definition below
  names the variant it is taken from where the variants differ.
\<close>

section \<open>JavaScript values read by the bot\<close>

text \<open>
  The catalog is a JSON array of objects whose properties are strings (section 3 of the
  specification); a property that the object does not carry reads as \<open>undefined\<close>, which
  is \<open>None\<close> here. Strings are ASCII text: Isabelle's \<open>char\<close> is a byte, and
  \<open>toLowerCase\<close> below is the builtin on that range (it leaves every other byte alone).
\<close>

definition truthy :: "string option \<Rightarrow> bool" where
  \<comment> \<open>JavaScript truthiness of a string-or-undefined: undefined and the empty string are falsy.\<close>
  "truthy v = (case v of None \<Rightarrow> False | Some s \<Rightarrow> s \<noteq> [])"

definition js_or :: "string option \<Rightarrow> string option \<Rightarrow> string option" where
  \<comment> \<open>\<open>a || b\<close>\<close>
  "js_or a b = (if truthy a then a else b)"

definition or_str :: "string option \<Rightarrow> string \<Rightarrow> string" where
  \<comment> \<open>\<open>a || 'literal'\<close>\<close>
  "or_str a d = (case a of None \<Rightarrow> d | Some s \<Rightarrow> if s = [] then d else s)"

definition or_undefined :: "string option \<Rightarrow> string option" where
  \<comment> \<open>\<open>a || undefined\<close>\<close>
  "or_undefined a = js_or a None"

definition template :: "string option \<Rightarrow> string" where
  \<comment> \<open>a template literal's placeholder: undefined is rendered as the text "undefined"\<close>
  "template v = (case v of None \<Rightarrow> ''undefined'' | Some s \<Rightarrow> s)"

definition lower_char :: "char \<Rightarrow> char" where
  "lower_char c =
     (let n = (of_char c :: nat) in if 65 \<le> n \<and> n \<le> 90 then char_of (n + 32) else c)"

definition toLowerCase :: "string \<Rightarrow> string" where
  "toLowerCase s = map lower_char s"

fun starts_with :: "string \<Rightarrow> string \<Rightarrow> bool" where
  "starts_with hay [] = True"
| "starts_with [] (d # ds) = False"
| "starts_with (c # cs) (d # ds) = (c = d \<and> starts_with cs ds)"

fun includes_str :: "string \<Rightarrow> string \<Rightarrow> bool" where
  \<comment> \<open>\<open>hay.includes(q)\<close>\<close>
  "includes_str [] q = (q = [])"
| "includes_str (c # cs) q = (starts_with (c # cs) q \<or> includes_str cs q)"

definition slice0 :: "'a list \<Rightarrow> int \<Rightarrow> 'a list" where
  \<comment> \<open>\<open>xs.slice(0, end)\<close>: a negative end counts from the end of the array\<close>
  "slice0 xs end_arg =
     (let len = int (length xs);
          final = (if end_arg < 0 then max (len + end_arg) 0 else min end_arg len)
      in take (nat final) xs)"

section \<open>The catalog and the query matcher\<close>

record entry =
  entry_id :: "string option"
  file_unique_id :: "string option"
  title :: "string option"
  performer :: "string option"
  caption :: "string option"
  description :: "string option"
  file_id :: "string option"
  url :: "string option"
  voice_file_id :: "string option"
  document_file_id :: "string option"
  tg_type :: "string option"
  is_voice :: "bool option"

definition no_fields :: entry where
  \<comment> \<open>the object \<open>{}\<close>\<close>
  "no_fields = \<lparr> entry_id = None, file_unique_id = None, title = None, performer = None,
     caption = None, description = None, file_id = None, url = None, voice_file_id = None,
     document_file_id = None, tg_type = None, is_voice = None \<rparr>"

definition normalize :: "string option \<Rightarrow> string" where
  "normalize s = toLowerCase (or_str s [])"

definition hay :: "entry \<Rightarrow> string" where
  \<comment> \<open>\<open>`${a.title} ${a.performer || ''}`\<close>\<close>
  "hay a = template (title a) @ '' '' @ or_str (performer a) []"

definition searchAudios :: "entry list \<Rightarrow> string option \<Rightarrow> int option \<Rightarrow> entry list" where
  "searchAudios audioLibrary query limit_arg =
     (let limit = (case limit_arg of None \<Rightarrow> 25 | Some n \<Rightarrow> n);
          q = normalize query
      in if q = [] then slice0 audioLibrary limit
         else let results = filter (\<lambda>a. includes_str (normalize (Some (hay a))) q) audioLibrary
              in slice0 results limit)"

text \<open>
  The second variant in \<open>src/index.js\<close> differs in one place: a missing title is
  searched as the empty string, \<open>`${a.title || ''} ${a.performer || ''}`\<close>.
\<close>

definition hay_v2 :: "entry \<Rightarrow> string" where
  "hay_v2 a = or_str (title a) [] @ '' '' @ or_str (performer a) []"

definition searchAudios_v2 :: "entry list \<Rightarrow> string option \<Rightarrow> int option \<Rightarrow> entry list" where
  "searchAudios_v2 audioLibrary query limit_arg =
     (let limit = (case limit_arg of None \<Rightarrow> 25 | Some n \<Rightarrow> n);
          q = normalize query
      in if q = [] then slice0 audioLibrary limit
         else let results = filter (\<lambda>a. includes_str (normalize (Some (hay_v2 a))) q) audioLibrary
              in slice0 results limit)"

definition title_performer :: "entry \<Rightarrow> string" where
  \<comment> \<open>the specification's words: the concatenation of title and performer\<close>
  "title_performer a = or_str (title a) [] @ or_str (performer a) []"

definition title_space_performer :: "entry \<Rightarrow> string" where
  \<comment> \<open>title, one space, performer; an absent part is empty\<close>
  "title_space_performer a = or_str (title a) [] @ '' '' @ or_str (performer a) []"

definition song_a :: entry where
  "song_a = no_fields\<lparr>title := Some ''Song A'', performer := Some ''X'', url := Some ''http://a''\<rparr>"

definition song_b :: entry where
  "song_b = no_fields\<lparr>title := Some ''Song B'', file_id := Some ''F1''\<rparr>"

section \<open>The result formatter\<close>

text \<open>
  The inline-query handler of \<open>src/unnamed/part_000\<close>: each found entry is mapped, with
  its index in the found list, to one of four object literals or to \<open>null\<close>, and the
  nulls are filtered out.
\<close>

datatype inline_result =
    Voice (result_id: string) (voice_ref: string) (shown_title: string)
  | Document (result_id: string) (document_ref: string) (shown_title: string)
      (shown_caption: "string option") (shown_description: "string option")
  | CachedAudio (result_id: string) (audio_ref: string) (shown_caption: "string option")
  | UrlAudio (result_id: string) (audio_url: string) (shown_title: string)
      (shown_performer: "string option") (shown_caption: "string option")

fun result_type :: "inline_result \<Rightarrow> string" where
  \<comment> \<open>the \<open>type\<close> property of the object literal\<close>
  "result_type (Voice i v t) = ''voice''"
| "result_type (Document i d t c ds) = ''document''"
| "result_type (CachedAudio i f c) = ''audio''"
| "result_type (UrlAudio i u t p c) = ''audio''"

datatype shape = VoiceShape | DocumentShape | CachedAudioShape | UrlAudioShape

fun shape_of :: "inline_result \<Rightarrow> shape" where
  "shape_of (Voice i v t) = VoiceShape"
| "shape_of (Document i d t c ds) = DocumentShape"
| "shape_of (CachedAudio i f c) = CachedAudioShape"
| "shape_of (UrlAudio i u t p c) = UrlAudioShape"

text \<open>A result with its identifier blanked: what of it does not come from the index.\<close>

fun strip_id :: "inline_result \<Rightarrow> inline_result" where
  "strip_id (Voice i v t) = Voice [] v t"
| "strip_id (Document i d t c ds) = Document [] d t c ds"
| "strip_id (CachedAudio i f c) = CachedAudio [] f c"
| "strip_id (UrlAudio i u t p c) = UrlAudio [] u t p c"

definition digit_char :: "nat \<Rightarrow> char" where
  "digit_char d = char_of (48 + d)"

function show_nat :: "nat \<Rightarrow> string" where
  \<comment> \<open>a non-negative integer in a template literal: its decimal digits\<close>
  "show_nat n = (if n < 10 then [digit_char n] else show_nat (n div 10) @ [digit_char (n mod 10)])"
  by pat_completeness auto
termination
  by (relation "measure (\<lambda>n. n)") auto

declare show_nat.simps [simp del]

definition make_id :: "entry \<Rightarrow> nat \<Rightarrow> string" where
  \<comment> \<open>\<open>`${a.id || a.file_unique_id || idx}`\<close>\<close>
  "make_id a idx =
     (case js_or (entry_id a) (file_unique_id a) of
        None \<Rightarrow> show_nat idx
      | Some s \<Rightarrow> if s = [] then show_nat idx else s)"

definition format_entry :: "entry \<Rightarrow> nat \<Rightarrow> inline_result option" where
  "format_entry a idx =
     (let rid = make_id a idx in
      if tg_type a = Some ''voice'' \<or> is_voice a = Some True \<or> truthy (voice_file_id a) then
        (case js_or (voice_file_id a) (file_id a) of
           None \<Rightarrow> None
         | Some voiceId \<Rightarrow>
             if voiceId = [] then None
             else Some (Voice rid voiceId (or_str (title a) ''Voice'')))
      else if tg_type a = Some ''document'' \<or> truthy (document_file_id a) then
        (case js_or (document_file_id a) (file_id a) of
           None \<Rightarrow> None
         | Some docId \<Rightarrow>
             if docId = [] then None
             else Some (Document rid docId (or_str (title a) ''Document'')
                          (or_undefined (caption a)) (or_undefined (description a))))
      else if truthy (file_id a) then
        Some (CachedAudio rid (or_str (file_id a) []) (or_undefined (caption a)))
      else if truthy (url a) then
        Some (UrlAudio rid (or_str (url a) []) (or_str (title a) ''Audio'')
                (or_undefined (performer a)) (or_undefined (caption a)))
      else None)"

fun compact :: "'a option list \<Rightarrow> 'a list" where
  \<comment> \<open>\<open>.filter(Boolean)\<close> on an array of objects and nulls\<close>
  "compact [] = []"
| "compact (None # xs) = compact xs"
| "compact (Some x # xs) = x # compact xs"

definition inline_query_results :: "entry list \<Rightarrow> string option \<Rightarrow> inline_result list" where
  "inline_query_results audioLibrary inlineQuery_query =
     (let q = or_str inlineQuery_query [];
          items = searchAudios audioLibrary (Some q) (Some 25)
      in compact (map (\<lambda>(idx, a). format_entry a idx) (enumerate 0 items)))"

record inline_answer =
  results :: "inline_result list"
  cache_time :: nat
  is_personal :: bool

definition inline_query_handler :: "entry list \<Rightarrow> string option \<Rightarrow> inline_answer" where
  \<comment> \<open>the arguments of \<open>ctx.answerInlineQuery\<close>; a failure of that call is logged and dropped\<close>
  "inline_query_handler audioLibrary inlineQuery_query =
     \<lparr> results = inline_query_results audioLibrary inlineQuery_query,
       cache_time = 0, is_personal = True \<rparr>"

definition voice_tagged :: "entry \<Rightarrow> bool" where
  "voice_tagged a \<longleftrightarrow>
     tg_type a = Some ''voice'' \<or> is_voice a = Some True \<or> truthy (voice_file_id a)"

definition document_tagged :: "entry \<Rightarrow> bool" where
  "document_tagged a \<longleftrightarrow> tg_type a = Some ''document'' \<or> truthy (document_file_id a)"

definition has_media :: "entry \<Rightarrow> bool" where
  "has_media a \<longleftrightarrow>
     truthy (voice_file_id a) \<or> truthy (document_file_id a) \<or> truthy (file_id a) \<or> truthy (url a)"

text \<open>
  The resolution order as section 4.2 of the specification words it: a rule matches when
  the entry is tagged for it and the reference resolves, and the first rule that matches
  wins.
\<close>

definition spec_resolution_order :: "entry \<Rightarrow> shape option" where
  "spec_resolution_order a =
     (if voice_tagged a \<and> truthy (js_or (voice_file_id a) (file_id a)) then Some VoiceShape
      else if document_tagged a \<and> truthy (js_or (document_file_id a) (file_id a))
        then Some DocumentShape
      else if truthy (file_id a) then Some CachedAudioShape
      else if truthy (url a) then Some UrlAudioShape
      else None)"

text \<open>
  The inline-query handlers of the two variants in \<open>src/index.js\<close>. Both answer with
  audio objects only and drop nothing: the first maps every found entry to URL audio
  (lines 59-69, identifier \<open>`${a.id || idx}`\<close>), the second to cached audio when the
  entry has a \<open>file_id\<close> and to URL audio otherwise (lines 208-231). \<open>audio_url\<close> is
  \<open>a.url\<close> as it is, so it can be undefined; so can the first variant's \<open>title\<close>.
\<close>

datatype index_result =
    IndexCachedAudio (index_result_id: string) (index_audio_ref: string)
      (index_caption: "string option")
  | IndexUrlAudio (index_result_id: string) (index_audio_url: "string option")
      (index_title: "string option") (index_performer: "string option")
      (index_caption: "string option")

definition make_id_v1 :: "entry \<Rightarrow> nat \<Rightarrow> string" where
  "make_id_v1 a idx =
     (case entry_id a of
        None \<Rightarrow> show_nat idx
      | Some s \<Rightarrow> if s = [] then show_nat idx else s)"

definition format_entry_v1 :: "entry \<Rightarrow> nat \<Rightarrow> index_result" where
  "format_entry_v1 a idx =
     IndexUrlAudio (make_id_v1 a idx) (url a) (title a)
       (or_undefined (performer a)) (or_undefined (caption a))"

definition inline_query_results_v1 :: "entry list \<Rightarrow> string option \<Rightarrow> index_result list" where
  "inline_query_results_v1 audioLibrary inlineQuery_query =
     (let q = or_str inlineQuery_query [];
          items = searchAudios audioLibrary (Some q) (Some 25)
      in map (\<lambda>(idx, a). format_entry_v1 a idx) (enumerate 0 items))"

definition format_entry_v2 :: "entry \<Rightarrow> nat \<Rightarrow> index_result" where
  "format_entry_v2 a idx =
     (let rid = make_id a idx in
      if truthy (file_id a) then
        IndexCachedAudio rid (or_str (file_id a) []) (or_undefined (caption a))
      else
        IndexUrlAudio rid (url a) (Some (or_str (title a) ''Audio''))
          (or_undefined (performer a)) (or_undefined (caption a)))"

definition inline_query_results_v2 :: "entry list \<Rightarrow> string option \<Rightarrow> index_result list" where
  "inline_query_results_v2 audioLibrary inlineQuery_query =
     (let q = or_str inlineQuery_query [];
          items = searchAudios_v2 audioLibrary (Some q) (Some 25)
      in map (\<lambda>(idx, a). format_entry_v2 a idx) (enumerate 0 items))"

section \<open>Start-up and transport selection\<close>

record environment =
  env_BOT_TOKEN :: "string option"
  env_WEBHOOK_DOMAIN :: "string option"
  env_WEBHOOK_SECRET :: "string option"
  env_PORT :: "string option"
  env_USE_POLLING :: "string option"
  env_NODE_ENV :: "string option"

text \<open>The module's constants, each evaluated once when the module is loaded.\<close>

record constants =
  WEBHOOK_DOMAIN :: "string option"
  WEBHOOK_SECRET :: string
  WEBHOOK_PATH :: string
  PORT :: string
  USE_POLLING :: bool
  audioLibrary :: "entry list"

datatype exit = Exit nat

definition load_module :: "environment \<Rightarrow> string \<Rightarrow> entry list option \<Rightarrow> exit + constants" where
  \<comment> \<open>\<open>random_hex\<close> is \<open>crypto.randomBytes(8).toString('hex')\<close>; \<open>audios_json\<close> is the
      parsed \<open>data/audios.json\<close>, \<open>None\<close> when reading or parsing it throws\<close>
  "load_module env random_hex audios_json =
     (if \<not> truthy (env_BOT_TOKEN env) then Inl (Exit 1)
      else
        let secret = or_str (env_WEBHOOK_SECRET env) random_hex;
            polling = (env_USE_POLLING env = Some ''true'' \<or>
                       (\<not> truthy (env_WEBHOOK_DOMAIN env) \<and> env_NODE_ENV env \<noteq> Some ''production''))
        in case audios_json of
             None \<Rightarrow> Inl (Exit 1)
           | Some lib \<Rightarrow>
               Inr \<lparr> WEBHOOK_DOMAIN = env_WEBHOOK_DOMAIN env,
                     WEBHOOK_SECRET = secret,
                     WEBHOOK_PATH = ''/telegraf/'' @ secret,
                     PORT = or_str (env_PORT env) ''3000'',
                     USE_POLLING = polling,
                     audioLibrary = lib \<rparr>)"

datatype action =
    Launch
  | Listen string
  | UseJson
  | UseWebhookCallback string
  | SetWebhook string "string list option"
  | GetMe

definition strip_slash :: "string \<Rightarrow> string" where
  \<comment> \<open>\<open>.replace(/\/$/, '')\<close>\<close>
  "strip_slash s = (if s \<noteq> [] \<and> last s = CHR ''/'' then butlast s else s)"

definition health :: "constants \<Rightarrow> string" where
  \<comment> \<open>the \<open>mode\<close> property of the health endpoint's answer\<close>
  "health c = (if USE_POLLING c then ''polling'' else ''webhook'')"

text \<open>
  \<open>main\<close> of \<open>src/unnamed/part_000\<close>: the calls it makes, in order, and the exit code when
  the awaited upstream call (\<open>bot.launch\<close> or \<open>setWebhook\<close>) rejects.
\<close>

definition main :: "constants \<Rightarrow> bool \<Rightarrow> action list \<times> exit option" where
  "main c upstream_ok =
     (if USE_POLLING c then
        (if upstream_ok then ([Launch, Listen (PORT c)], None)
         else ([Launch], Some (Exit 1)))
      else
        let domain = map_option strip_slash (WEBHOOK_DOMAIN c);
            webhookUrl = template domain @ WEBHOOK_PATH c;
            register = SetWebhook webhookUrl
                         (Some [''inline_query'', ''chosen_inline_result'', ''message''])
        in if upstream_ok
           then ([UseJson, UseWebhookCallback (WEBHOOK_PATH c), register, Listen (PORT c)], None)
           else ([UseJson, UseWebhookCallback (WEBHOOK_PATH c), register], Some (Exit 1)))"

text \<open>
  \<open>main\<close> of the first variant in \<open>src/index.js\<close>: the webhook is registered with its
  URL alone.
\<close>

definition main_index :: "constants \<Rightarrow> bool \<Rightarrow> action list \<times> exit option" where
  "main_index c upstream_ok =
     (if USE_POLLING c then
        (if upstream_ok then ([Launch, Listen (PORT c)], None)
         else ([Launch], Some (Exit 1)))
      else
        let domain = map_option strip_slash (WEBHOOK_DOMAIN c);
            webhookUrl = template domain @ WEBHOOK_PATH c;
            register = SetWebhook webhookUrl None
        in if upstream_ok
           then ([UseJson, UseWebhookCallback (WEBHOOK_PATH c), register, Listen (PORT c)], None)
           else ([UseJson, UseWebhookCallback (WEBHOOK_PATH c), register], Some (Exit 1)))"

text \<open>
  \<open>main\<close> of the second variant in \<open>src/index.js\<close> first calls \<open>getMe\<close> to log a
  link (a failure of that call is dropped), then does the same.
\<close>

definition main_index_v2 :: "constants \<Rightarrow> bool \<Rightarrow> action list \<times> exit option" where
  "main_index_v2 c upstream_ok =
     (case main_index c upstream_ok of (calls, code) \<Rightarrow> (GetMe # calls, code))"

text \<open>The webhook registrations among the calls: URL and \<open>allowed_updates\<close> option.\<close>

fun registrations :: "action list \<Rightarrow> (string \<times> string list option) list" where
  "registrations [] = []"
| "registrations (SetWebhook u au # xs) = (u, au) # registrations xs"
| "registrations (x # xs) = registrations xs"

definition sample_env :: environment where
  "sample_env = \<lparr> env_BOT_TOKEN = Some ''123:abc'', env_WEBHOOK_DOMAIN = Some ''https://bot.example/'',
     env_WEBHOOK_SECRET = Some ''s3'', env_PORT = None, env_USE_POLLING = None,
     env_NODE_ENV = Some ''production'' \<rparr>"

definition sample_constants :: constants where
  "sample_constants = \<lparr> WEBHOOK_DOMAIN = Some ''https://bot.example/'', WEBHOOK_SECRET = ''s3'',
     WEBHOOK_PATH = ''/telegraf/s3'', PORT = ''3000'', USE_POLLING = False,
     audioLibrary = [song_a, song_b] \<rparr>"

section \<open>Commands\<close>

text \<open>
  The command handlers of the second variant in \<open>src/index.js\<close>. \<open>reply_ok\<close> says whether
  \<open>ctx.reply\<close> resolves. The usage text is a fixed literal in Russian; \<open>UsageMessage\<close>
  stands for it.
\<close>

record chat =
  chat_id :: int
  chat_type :: string

record sender =
  sender_id :: int
  username :: "string option"

record ctx =
  ctx_chat :: "chat option"
  ctx_from :: "sender option"
  startPayload :: "string option"
  reply_ok :: bool

datatype message = UsageMessage | Text string

datatype outcome = Replied message | Swallowed | Rejected

definition show_int :: "int \<Rightarrow> string" where
  "show_int i = (if i < 0 then CHR ''-'' # show_nat (nat (- i)) else show_nat (nat i))"

fun join_lines :: "string list \<Rightarrow> string" where
  \<comment> \<open>\<open>parts.join('\n')\<close>\<close>
  "join_lines [] = []"
| "join_lines [x] = x"
| "join_lines (x # y # ys) = x @ [CHR 0x0A] @ join_lines (y # ys)"

definition formatIds :: "ctx \<Rightarrow> string" where
  "formatIds ctx =
     (let parts0 = [];
          parts1 = (case ctx_chat ctx of
                      None \<Rightarrow> parts0
                    | Some ch \<Rightarrow>
                        parts0 @ [''chat_id: '' @ show_int (chat_id ch) @ '' ('' @ chat_type ch @ '')'']);
          parts2 = (case ctx_from ctx of
                      None \<Rightarrow> parts1
                    | Some fr \<Rightarrow>
                        parts1 @ [''user_id: '' @ show_int (sender_id fr) @
                                  (if truthy (username fr)
                                   then '' (@'' @ or_str (username fr) [] @ '')''
                                   else [])])
      in join_lines parts2)"

definition reply :: "ctx \<Rightarrow> message \<Rightarrow> outcome" where
  \<comment> \<open>\<open>return ctx.reply(m)\<close>: a rejection reaches the framework\<close>
  "reply ctx m = (if reply_ok ctx then Replied m else Rejected)"

definition replyWithIds :: "ctx \<Rightarrow> outcome" where
  \<comment> \<open>\<open>try { await ctx.reply(formatIds(ctx)); } catch {}\<close>\<close>
  "replyWithIds ctx =
     (case reply ctx (Text (formatIds ctx)) of Rejected \<Rightarrow> Swallowed | r \<Rightarrow> r)"

definition id_command :: "ctx \<Rightarrow> outcome" where
  \<comment> \<open>\<open>bot.command('id', replyWithIds)\<close>, and the same for \<open>myid\<close>\<close>
  "id_command ctx = replyWithIds ctx"

definition start :: "ctx \<Rightarrow> outcome" where
  "start ctx =
     (let payload = or_str (startPayload ctx) [] in
      if toLowerCase payload = ''id'' \<or> toLowerCase payload = ''getid'' then replyWithIds ctx
      else reply ctx UsageMessage)"

text \<open>
  \<open>bot.start\<close> of \<open>src/unnamed/part_000\<close> and of the first variant in \<open>src/index.js\<close> reads
  no payload.
\<close>

definition start_plain :: "ctx \<Rightarrow> outcome" where
  "start_plain ctx = reply ctx UsageMessage"

text \<open>
  The handler of \<open>/id\<close> and \<open>/myid\<close> in \<open>src/unnamed/part_000\<close> (lines 58-65); the first
  variant in \<open>src/index.js\<close> has no such command.
\<close>

definition id_command_part000 :: "ctx \<Rightarrow> outcome" where
  "id_command_part000 c =
     (let chatId = (case ctx_chat c of None \<Rightarrow> ''undefined'' | Some ch \<Rightarrow> show_int (chat_id ch));
          userId = (case ctx_from c of None \<Rightarrow> ''undefined'' | Some fr \<Rightarrow> show_int (sender_id fr));
          uname = (case ctx_from c of
                     None \<Rightarrow> []
                   | Some fr \<Rightarrow>
                       if truthy (username fr) then '' (@'' @ or_str (username fr) [] @ '')''
                       else [])
      in case reply c (Text (''chat_id: '' @ chatId @ [CHR 0x0A] @ ''user_id: '' @ userId @ uname)) of
           Rejected \<Rightarrow> Swallowed
         | r \<Rightarrow> r)"



definition sample_ctx :: ctx where
  "sample_ctx = \<lparr> ctx_chat = Some \<lparr> chat_id = - 1001, chat_type = ''group'' \<rparr>,
     ctx_from = Some \<lparr> sender_id = 42, username = Some ''bob'' \<rparr>,
     startPayload = Some ''GetID'', reply_ok = True \<rparr>"

section \<open>Facts about strings\<close>

lemma lower_char_idem: "lower_char (lower_char c) = lower_char c"
  by (auto simp: lower_char_def Let_def)

lemma toLowerCase_idem: "toLowerCase (toLowerCase s) = toLowerCase s"
  by (simp add: toLowerCase_def lower_char_idem)

lemma toLowerCase_Nil_iff: "toLowerCase s = [] \<longleftrightarrow> s = []"
  by (simp add: toLowerCase_def)

lemma toLowerCase_append: "toLowerCase (s @ t) = toLowerCase s @ toLowerCase t"
  by (simp add: toLowerCase_def)

lemma lower_char_space: "lower_char CHR '' '' = CHR '' ''"
  by code_simp

lemma toLowerCase_space: "toLowerCase '' '' = '' ''"
  by (simp add: toLowerCase_def lower_char_space)

lemma starts_with_iff: "starts_with h q \<longleftrightarrow> (\<exists>s. h = q @ s)"
  by (induction h q rule: starts_with.induct) auto

lemma includes_str_iff: "includes_str h q \<longleftrightarrow> (\<exists>p s. h = p @ q @ s)"
proof (induction h)
  case Nil
  then show ?case by simp
next
  case (Cons c cs)
  show ?case
  proof
    assume "includes_str (c # cs) q"
    then consider "starts_with (c # cs) q" | "includes_str cs q" by auto
    then show "\<exists>p s. c # cs = p @ q @ s"
    proof cases
      case 1
      then obtain s where "c # cs = q @ s" by (auto simp: starts_with_iff)
      then have "c # cs = [] @ q @ s" by simp
      then show ?thesis by blast
    next
      case 2
      then obtain p s where "cs = p @ q @ s" using Cons.IH by auto
      then have "c # cs = (c # p) @ q @ s" by simp
      then show ?thesis by blast
    qed
  next
    assume "\<exists>p s. c # cs = p @ q @ s"
    then obtain p s where eq: "c # cs = p @ q @ s" by auto
    show "includes_str (c # cs) q"
    proof (cases p)
      case Nil
      with eq have "starts_with (c # cs) q" by (auto simp: starts_with_iff)
      then show ?thesis by simp
    next
      case (Cons x p')
      with eq have "cs = p' @ q @ s" by simp
      then have "includes_str cs q" using Cons.IH by blast
      then show ?thesis by simp
    qed
  qed
qed

lemma slice0_take: "slice0 xs n = take (nat (if n < 0 then int (length xs) + n else n)) xs"
  by (auto simp: slice0_def Let_def max_def min_def)

lemma normalize_Some: "normalize (Some s) = toLowerCase s"
  by (simp add: normalize_def or_str_def)

lemma normalize_None: "normalize None = []"
  by (simp add: normalize_def or_str_def toLowerCase_def)

lemma hay_titled: "title a \<noteq> None \<Longrightarrow> hay a = title_space_performer a"
  by (auto simp: hay_def title_space_performer_def template_def or_str_def)

lemma hay_v2_eq: "hay_v2 a = title_space_performer a"
  by (simp add: hay_v2_def title_space_performer_def)

lemma hay_has_space: "includes_str (normalize (Some (hay a))) (normalize (Some '' ''))"
  unfolding includes_str_iff normalize_Some hay_def toLowerCase_append toLowerCase_space
  by blast

section \<open>Claims about the query matcher\<close>

text \<open>
  C4. With an empty query, or none, the search does not filter: it returns the first
  \<open>n\<close> catalog entries in catalog order (a negative limit, which the handler never
  passes, is \<open>Array.slice\<close>'s count from the end). For \<open>n = 1\<close> that is the first
  entry alone.
\<close>

theorem searchAudios_empty_query:
  "searchAudios lib None (Some n) = take (nat (if n < 0 then int (length lib) + n else n)) lib \<and>
   searchAudios lib (Some []) (Some n) = take (nat (if n < 0 then int (length lib) + n else n)) lib \<and>
   searchAudios lib (Some []) (Some 1) = take 1 lib \<and>
   searchAudios lib None None = take 25 lib \<and>
   searchAudios_v2 lib None (Some n) = searchAudios lib None (Some n) \<and>
   searchAudios_v2 lib (Some []) (Some n) = searchAudios lib (Some []) (Some n)"
  by (simp add: searchAudios_def searchAudios_v2_def normalize_None normalize_Some
        toLowerCase_def slice0_take)

text \<open>
  C1, as the code has it. The text searched is not the bare concatenation of title and
  performer: the two are joined by one space. For a non-empty query \<open>q\<close> and a catalog
  whose entries all carry a title, the search returns exactly the entries whose lower-cased
  title, space, performer contains the lower-cased \<open>q\<close>, in catalog order, cut to the
  first \<open>n\<close> (a negative \<open>n\<close> counts from the end, as \<open>Array.slice\<close> does);
  so every returned entry contains it.
\<close>

theorem searchAudios_matches:
  assumes "q \<noteq> []" and "\<forall>a \<in> set lib. title a \<noteq> None"
  shows "searchAudios lib (Some q) (Some n) =
           (let ms = filter (\<lambda>a. \<exists>p s. toLowerCase (title_space_performer a) = p @ toLowerCase q @ s) lib
            in take (nat (if n < 0 then int (length ms) + n else n)) ms)
         \<and> (\<forall>a \<in> set (searchAudios lib (Some q) (Some n)).
               \<exists>p s. toLowerCase (title_space_performer a) = p @ toLowerCase q @ s)"
proof -
  let ?P = "\<lambda>a. \<exists>p s. toLowerCase (title_space_performer a) = p @ toLowerCase q @ s"
  have nonempty: "normalize (Some q) \<noteq> []"
    using assms(1) by (simp add: normalize_Some toLowerCase_Nil_iff)
  have same: "filter (\<lambda>a. includes_str (normalize (Some (hay a))) (normalize (Some q))) lib = filter ?P lib"
  proof (rule filter_cong[OF refl])
    fix a assume "a \<in> set lib"
    then have "hay a = title_space_performer a" using assms(2) hay_titled by blast
    then show "includes_str (normalize (Some (hay a))) (normalize (Some q)) = ?P a"
      by (simp add: includes_str_iff normalize_Some)
  qed
  have "searchAudios lib (Some q) (Some n) =
      slice0 (filter (\<lambda>a. includes_str (normalize (Some (hay a))) (normalize (Some q))) lib) n"
    using nonempty by (simp add: searchAudios_def Let_def)
  also have "\<dots> = slice0 (filter ?P lib) n"
    by (simp only: same)
  also have "\<dots> = take (nat (if n < 0 then int (length (filter ?P lib)) + n else n)) (filter ?P lib)"
    by (rule slice0_take)
  finally have res: "searchAudios lib (Some q) (Some n) =
      take (nat (if n < 0 then int (length (filter ?P lib)) + n else n)) (filter ?P lib)" .
  have "set (searchAudios lib (Some q) (Some n)) \<subseteq> set (filter ?P lib)"
    unfolding res by (rule set_take_subset)
  then have ball: "\<forall>a \<in> set (searchAudios lib (Some q) (Some n)). ?P a"
    by (simp only: set_filter) blast
  show ?thesis
    unfolding Let_def by (rule conjI) (fact res, fact ball)
qed

text \<open>The scenario of section 8: the query "a" finds "Song A" alone.\<close>

theorem searchAudios_matches_witness:
  "''a'' \<noteq> [] \<and> title song_a \<noteq> None \<and> title song_b \<noteq> None \<and>
   searchAudios [song_a, song_b] (Some ''a'') (Some 25) = [song_a] \<and>
   (\<exists>p s. toLowerCase (title_space_performer song_a) = p @ toLowerCase ''a'' @ s)"
proof -
  have ta: "title song_a \<noteq> None" and tb: "title song_b \<noteq> None"
    by (simp_all add: song_a_def song_b_def no_fields_def)
  have h: "\<forall>a \<in> set [song_a, song_b]. title a \<noteq> None" using ta tb by simp
  have q: "''a'' \<noteq> []" by simp
  have r: "searchAudios [song_a, song_b] (Some ''a'') (Some 25) = [song_a]"
    by code_simp
  from searchAudios_matches [OF q h, of 25] r
  have "\<exists>p s. toLowerCase (title_space_performer song_a) = p @ toLowerCase ''a'' @ s"
    by simp
  with ta tb r show ?thesis by simp
qed

text \<open>
  The claim as worded fails on a one-entry catalog: the query of one space finds the entry
  titled "a" and performed by "b", and the concatenation "ab" has no space in it.
\<close>

theorem searchAudios_concatenation_counterexample:
  "searchAudios [no_fields\<lparr>title := Some ''a'', performer := Some ''b''\<rparr>] (Some '' '') (Some 25)
     = [no_fields\<lparr>title := Some ''a'', performer := Some ''b''\<rparr>]
   \<and> \<not> includes_str
         (toLowerCase (title_performer (no_fields\<lparr>title := Some ''a'', performer := Some ''b''\<rparr>)))
         (toLowerCase '' '')"
  by code_simp

text \<open>
  C9. The search lower-cases its query before anything else, and lower-casing twice is
  lower-casing once: a query and its lower-cased form find the same entries, under every
  limit, in both variants of the matcher.
\<close>

theorem searchAudios_case_invariant:
  "searchAudios lib (Some q) limit = searchAudios lib (Some (toLowerCase q)) limit \<and>
   searchAudios_v2 lib (Some q) limit = searchAudios_v2 lib (Some (toLowerCase q)) limit"
  by (simp add: searchAudios_def searchAudios_v2_def normalize_Some toLowerCase_idem)

text \<open>
  C10. The text searched always holds the joining space, so the query of one space matches
  every entry, and the search returns what the empty query returns: the first \<open>n\<close>
  entries of the catalog.
\<close>

theorem searchAudios_space_query:
  "includes_str (normalize (Some (hay a))) (normalize (Some '' '')) \<and>
   searchAudios lib (Some '' '') limit = searchAudios lib (Some []) limit \<and>
   searchAudios lib (Some '' '') (Some n) =
     take (nat (if n < 0 then int (length lib) + n else n)) lib"
proof -
  have ne: "normalize (Some '' '') \<noteq> []"
    by (simp add: normalize_Some toLowerCase_Nil_iff)
  have all: "filter (\<lambda>a. includes_str (normalize (Some (hay a))) (normalize (Some '' ''))) lib = lib"
    by (simp add: hay_has_space)
  have e: "normalize (Some []) = []" by (simp add: normalize_Some toLowerCase_def)
  have a: "searchAudios lib (Some '' '') limit = searchAudios lib (Some []) limit"
    using ne by (simp add: searchAudios_def Let_def all e)
  have b: "searchAudios lib (Some '' '') (Some n) = take (nat (if n < 0 then int (length lib) + n else n)) lib"
    using ne by (simp add: searchAudios_def Let_def all slice0_take)
  from a b hay_has_space show ?thesis by blast
qed


section \<open>Claims about the result formatter\<close>

lemma truthy_Some: "truthy (Some s) \<longleftrightarrow> s \<noteq> []"
  by (simp add: truthy_def)

lemma truthy_None: "\<not> truthy None"
  by (simp add: truthy_def)

lemma truthy_js_or: "truthy (js_or a b) \<longleftrightarrow> truthy a \<or> truthy b"
  by (simp add: js_or_def)

lemma format_entry_table:
  "format_entry a idx =
     (if voice_tagged a then
        (if truthy (js_or (voice_file_id a) (file_id a))
         then Some (Voice (make_id a idx) (or_str (js_or (voice_file_id a) (file_id a)) []) (or_str (title a) ''Voice''))
         else None)
      else if document_tagged a then
        (if truthy (js_or (document_file_id a) (file_id a))
         then Some (Document (make_id a idx) (or_str (js_or (document_file_id a) (file_id a)) [])
                 (or_str (title a) ''Document'') (or_undefined (caption a)) (or_undefined (description a)))
         else None)
      else if truthy (file_id a) then
        Some (CachedAudio (make_id a idx) (or_str (file_id a) []) (or_undefined (caption a)))
      else if truthy (url a) then
        Some (UrlAudio (make_id a idx) (or_str (url a) []) (or_str (title a) ''Audio'')
                (or_undefined (performer a)) (or_undefined (caption a)))
      else None)"
  by (auto simp: format_entry_def voice_tagged_def document_tagged_def Let_def truthy_def or_str_def
           split: option.splits)

lemma format_entry_no_media: "\<not> has_media a \<Longrightarrow> format_entry a idx = None"
  by (simp add: format_entry_table has_media_def truthy_js_or)

lemma format_entry_Some_media: "format_entry a idx = Some r \<Longrightarrow> has_media a"
  using format_entry_no_media by fastforce

lemma compact_set: "r \<in> set (compact xs) \<longleftrightarrow> Some r \<in> set xs"
  by (induction xs rule: compact.induct) auto

lemma set_slice0: "set (slice0 xs n) \<subseteq> set xs"
  unfolding slice0_take by (rule set_take_subset)

lemma set_searchAudios: "set (searchAudios lib q l) \<subseteq> set lib"
proof -
  have "set (slice0 (filter P lib) n) \<subseteq> set lib" for P n
    using set_slice0[of "filter P lib" n] by auto
  then show ?thesis
    using set_slice0[of lib] by (simp add: searchAudios_def Let_def)
qed

lemma inline_query_results_derive:
  assumes "r \<in> set (inline_query_results lib query)"
  shows "\<exists>idx b. b \<in> set lib \<and> has_media b \<and> format_entry b idx = Some r"
proof -
  let ?items = "searchAudios lib (Some (or_str query [])) (Some 25)"
  from assms have "Some r \<in> set (map (\<lambda>(idx, a). format_entry a idx) (enumerate 0 ?items))"
    by (simp add: inline_query_results_def Let_def compact_set)
  then obtain idx b where in_enum: "(idx, b) \<in> set (enumerate 0 ?items)"
      and fmt: "format_entry b idx = Some r"
    by auto
  from in_enum have "b \<in> set ?items"
    by (auto simp: in_set_enumerate_eq)
  then have "b \<in> set lib" using set_searchAudios by blast
  with fmt format_entry_Some_media show ?thesis by blast
qed


lemma found_entry_in_enumerate:
  assumes "b \<in> set xs"
  shows "\<exists>i. (i, b) \<in> set (enumerate 0 xs)"
proof -
  from assms obtain i where "i < length xs" and "xs ! i = b"
    unfolding in_set_conv_nth by blast
  then have "(i, b) \<in> set (enumerate 0 xs)"
    by (simp add: in_set_enumerate_eq)
  then show ?thesis ..
qed

lemma map_enumerate_member:
  assumes "b \<in> set xs"
  shows "\<exists>i. f b i \<in> set (map (\<lambda>(idx, a). f a idx) (enumerate 0 xs))"
proof -
  from found_entry_in_enumerate [OF assms]
  obtain i where mem: "(i, b) \<in> set (enumerate 0 xs)" ..
  have "(case (i, b) of (idx, a) \<Rightarrow> f a idx)
          \<in> (\<lambda>p. case p of (idx, a) \<Rightarrow> f a idx) ` set (enumerate 0 xs)"
    by (rule imageI [OF mem, of "\<lambda>p. case p of (idx, a) \<Rightarrow> f a idx"])
  then have "f b i \<in> set (map (\<lambda>(idx, a). f a idx) (enumerate 0 xs))"
    by (simp only: set_map prod.case)
  then show ?thesis ..
qed

lemma map_enumerate_all:
  "\<forall>b \<in> set xs. \<exists>i. f b i \<in> set (map (\<lambda>(idx, a). f a idx) (enumerate 0 xs))"
proof (rule ballI)
  fix b assume "b \<in> set xs"
  then show "\<exists>i. f b i \<in> set (map (\<lambda>(idx, a). f a idx) (enumerate 0 xs))"
    by (rule map_enumerate_member)
qed


lemma format_entry_strip_id:
  "map_option strip_id (format_entry a i) = map_option strip_id (format_entry a j)"
  by (simp add: format_entry_table)



text \<open>
  C2, as the code has it. In the handler of \<open>src/unnamed/part_000\<close> an entry with no
  voice reference, no document reference, no \<open>file_id\<close> and no \<open>url\<close> (absent or
  empty) is formatted to nothing at every index, so no result of any inline query is
  derived from it, and no error is raised for it; every result that handler returns is the
  formatting of a catalog entry that has one of the four. The handlers of the two variants
  in \<open>src/index.js\<close> exclude nothing: every found entry has its result in the answer, and
  such an entry is formatted as URL audio whose \<open>audio_url\<close> is undefined or empty.
\<close>

theorem unreferenced_entry_excluded:
  assumes "\<not> has_media a"
  shows "format_entry a idx = None \<and>
         (\<forall>r \<in> set (inline_query_results lib query). \<forall>i. format_entry a i \<noteq> Some r) \<and>
         (\<forall>r \<in> set (inline_query_results lib query).
            \<exists>i b. b \<in> set lib \<and> has_media b \<and> format_entry b i = Some r) \<and>
         format_entry_v1 a idx =
           IndexUrlAudio (make_id_v1 a idx) (url a) (title a)
             (or_undefined (performer a)) (or_undefined (caption a)) \<and>
         format_entry_v2 a idx =
           IndexUrlAudio (make_id a idx) (url a) (Some (or_str (title a) ''Audio''))
             (or_undefined (performer a)) (or_undefined (caption a)) \<and>
         \<not> truthy (url a) \<and>
         (\<forall>b \<in> set (searchAudios lib (Some (or_str query [])) (Some 25)).
            \<exists>i. format_entry_v1 b i \<in> set (inline_query_results_v1 lib query)) \<and>
         (\<forall>b \<in> set (searchAudios_v2 lib (Some (or_str query [])) (Some 25)).
            \<exists>i. format_entry_v2 b i \<in> set (inline_query_results_v2 lib query))"
proof -
  have none: "format_entry a i = None" for i
    using assms by (rule format_entry_no_media)
  have derive: "\<forall>r \<in> set (inline_query_results lib query).
          \<exists>i b. b \<in> set lib \<and> has_media b \<and> format_entry b i = Some r"
    using inline_query_results_derive by blast
  have v1: "format_entry_v1 a idx =
           IndexUrlAudio (make_id_v1 a idx) (url a) (title a)
             (or_undefined (performer a)) (or_undefined (caption a))"
    by (simp add: format_entry_v1_def)
  have nofile: "\<not> truthy (file_id a)" and nourl: "\<not> truthy (url a)"
    using assms by (simp_all add: has_media_def)
  have v2: "format_entry_v2 a idx =
           IndexUrlAudio (make_id a idx) (url a) (Some (or_str (title a) ''Audio''))
             (or_undefined (performer a)) (or_undefined (caption a))"
    using nofile by (simp add: format_entry_v2_def Let_def)
  have all1: "\<forall>b \<in> set (searchAudios lib (Some (or_str query [])) (Some 25)).
            \<exists>i. format_entry_v1 b i \<in> set (inline_query_results_v1 lib query)"
    unfolding inline_query_results_v1_def Let_def
    by (rule map_enumerate_all)
  have all2: "\<forall>b \<in> set (searchAudios_v2 lib (Some (or_str query [])) (Some 25)).
            \<exists>i. format_entry_v2 b i \<in> set (inline_query_results_v2 lib query)"
    unfolding inline_query_results_v2_def Let_def
    by (rule map_enumerate_all)
  from none have a: "format_entry a idx = None"
    and b: "\<forall>r \<in> set (inline_query_results lib query). \<forall>i. format_entry a i \<noteq> Some r"
    by simp_all
  from a b derive v1 v2 nourl all1 all2 show ?thesis
    by (intro conjI)
qed

theorem unreferenced_entry_excluded_witness:
  "\<not> has_media (no_fields\<lparr>title := Some ''Song C'', performer := Some ''Y''\<rparr>) \<and>
   format_entry (no_fields\<lparr>title := Some ''Song C'', performer := Some ''Y''\<rparr>) 0 = None \<and>
   inline_query_results [no_fields\<lparr>title := Some ''Song C'', performer := Some ''Y''\<rparr>, song_a] (Some ''song'')
     = [UrlAudio ''1'' ''http://a'' ''Song A'' (Some ''X'') None]"
proof -
  have h: "\<not> has_media (no_fields\<lparr>title := Some ''Song C'', performer := Some ''Y''\<rparr>)"
    by code_simp
  have r: "inline_query_results [no_fields\<lparr>title := Some ''Song C'', performer := Some ''Y''\<rparr>, song_a] (Some ''song'')
     = [UrlAudio ''1'' ''http://a'' ''Song A'' (Some ''X'') None]"
    by code_simp
  from unreferenced_entry_excluded [OF h, of 0]
  have "format_entry (no_fields\<lparr>title := Some ''Song C'', performer := Some ''Y''\<rparr>) 0 = None"
    by (rule conjunct1)
  with h r show ?thesis by (intro conjI)
qed

text \<open>
  The claim as worded fails on the handlers of \<open>src/index.js\<close>: over a catalog of one entry
  that has only a title, the empty query is answered with one audio result for that entry.
\<close>

theorem unreferenced_entry_formatted_counterexample:
  "\<not> has_media (no_fields\<lparr>title := Some ''Song C''\<rparr>) \<and>
   inline_query_results_v1 [no_fields\<lparr>title := Some ''Song C''\<rparr>] None
     = [IndexUrlAudio ''0'' None (Some ''Song C'') None None] \<and>
   inline_query_results_v2 [no_fields\<lparr>title := Some ''Song C''\<rparr>] None
     = [IndexUrlAudio ''0'' None (Some ''Song C'') None None]"
  by code_simp

text \<open>
  C3, as the code has it. The formatted result is a function of the entry and the index,
  and the index only feeds the identifier: at two indices the results are equal once their
  identifiers are blanked, and the identifier is the one \<open>make_id\<close> gives. Its shape is
  a function of the entry alone. It is the shape that the resolution order
  voice, document, cached audio, URL audio gives, with one difference: an entry tagged as
  voice whose voice reference does not resolve, and an entry not tagged as voice but tagged
  as document whose document reference does not resolve, is excluded; it does not go on to
  a later shape. The entry with \<open>file_id\<close> "F1", \<open>voice_file_id\<close> "V1" and
  \<open>is_voice\<close> true is the voice result carrying "V1".
\<close>

theorem format_entry_priority:
  "map_option shape_of (format_entry a idx) =
     (if voice_tagged a \<and> \<not> truthy (js_or (voice_file_id a) (file_id a)) then None
      else if \<not> voice_tagged a \<and> document_tagged a \<and>
              \<not> truthy (js_or (document_file_id a) (file_id a)) then None
      else spec_resolution_order a) \<and>
   map_option shape_of (format_entry a idx) = map_option shape_of (format_entry a idx') \<and>
   map_option strip_id (format_entry a idx) = map_option strip_id (format_entry a idx') \<and>
   map_option result_id (format_entry a idx) = map_option (\<lambda>r. make_id a idx) (format_entry a idx) \<and>
   format_entry (no_fields\<lparr>file_id := Some ''F1'', voice_file_id := Some ''V1'', is_voice := Some True\<rparr>) idx
     = Some (Voice (show_nat idx) ''V1'' ''Voice'')"
proof -
  have scen: "format_entry (no_fields\<lparr>file_id := Some ''F1'', voice_file_id := Some ''V1'', is_voice := Some True\<rparr>) idx
     = Some (Voice (show_nat idx) ''V1'' ''Voice'')"
    by (simp add: format_entry_def make_id_def js_or_def truthy_def or_str_def no_fields_def)
  have table: "map_option shape_of (format_entry a i) =
     (if voice_tagged a \<and> \<not> truthy (js_or (voice_file_id a) (file_id a)) then None
      else if \<not> voice_tagged a \<and> document_tagged a \<and>
              \<not> truthy (js_or (document_file_id a) (file_id a)) then None
      else spec_resolution_order a)" for i
    by (simp add: format_entry_table spec_resolution_order_def)
  have same: "map_option shape_of (format_entry a idx) = map_option shape_of (format_entry a idx')"
    by (simp only: table)
  have ids: "map_option result_id (format_entry a idx) = map_option (\<lambda>r. make_id a idx) (format_entry a idx)"
    by (simp add: format_entry_table)
  from table [of idx] same format_entry_strip_id [of a idx idx'] ids scen show ?thesis
    by (intro conjI)
qed

theorem format_entry_priority_witness:
  "format_entry (no_fields\<lparr>file_id := Some ''F1'', voice_file_id := Some ''V1'', is_voice := Some True\<rparr>) 0
     = Some (Voice ''0'' ''V1'' ''Voice'')"
proof -
  have "show_nat 0 = ''0''" by code_simp
  with format_entry_priority [of no_fields 0 0] show ?thesis by simp
qed


text \<open>
  The order as worded fails on an entry tagged voice that carries only a \<open>url\<close>: the first
  rule of section 4.2 that matches is URL audio, and the handler excludes the entry.
\<close>

theorem format_entry_fallthrough_counterexample:
  "format_entry (no_fields\<lparr>url := Some ''http://x'', tg_type := Some ''voice''\<rparr>) 0 = None \<and>
   spec_resolution_order (no_fields\<lparr>url := Some ''http://x'', tg_type := Some ''voice''\<rparr>)
     = Some UrlAudioShape"
  by code_simp






section \<open>Claims about the transport\<close>

text \<open>
  C5. \<open>USE_POLLING\<close> is a constant of the module, computed when it is loaded: it holds
  exactly when the variable \<open>USE_POLLING\<close> is the text "true", or no webhook domain is set
  (absent or empty) and \<open>NODE_ENV\<close> is not "production". Nothing assigns it afterwards:
  the health endpoint and \<open>main\<close> both read that one value, so the mode reported and the
  branch taken are the decision made at load.
\<close>

theorem polling_decision:
  assumes "load_module env random_hex audios_json = Inr c"
  shows "(USE_POLLING c \<longleftrightarrow>
            env_USE_POLLING env = Some ''true'' \<or>
            (\<not> truthy (env_WEBHOOK_DOMAIN env) \<and> env_NODE_ENV env \<noteq> Some ''production'')) \<and>
         health c = (if USE_POLLING c then ''polling'' else ''webhook'') \<and>
         (Launch \<in> set (fst (main c ok)) \<longleftrightarrow> USE_POLLING c) \<and>
         (registrations (fst (main c ok)) = [] \<longleftrightarrow> USE_POLLING c)"
proof -
  from assms have "USE_POLLING c \<longleftrightarrow>
            env_USE_POLLING env = Some ''true'' \<or>
            (\<not> truthy (env_WEBHOOK_DOMAIN env) \<and> env_NODE_ENV env \<noteq> Some ''production'')"
    by (auto simp: load_module_def Let_def split: if_splits option.splits)
  moreover have "health c = (if USE_POLLING c then ''polling'' else ''webhook'')"
    by (simp add: health_def)
  moreover have "Launch \<in> set (fst (main c ok)) \<longleftrightarrow> USE_POLLING c"
    by (simp add: main_def Let_def)
  moreover have "registrations (fst (main c ok)) = [] \<longleftrightarrow> USE_POLLING c"
    by (simp add: main_def Let_def)
  ultimately show ?thesis by blast
qed

theorem polling_decision_witness:
  "load_module sample_env ''0011223344556677'' (Some [song_a, song_b]) = Inr sample_constants \<and>
   \<not> USE_POLLING sample_constants \<and>
   health sample_constants = ''webhook'' \<and>
   Launch \<notin> set (fst (main sample_constants True))"
proof -
  have h: "load_module sample_env ''0011223344556677'' (Some [song_a, song_b]) = Inr sample_constants"
    by (simp add: load_module_def Let_def sample_env_def sample_constants_def truthy_def or_str_def)
  have p: "\<not> USE_POLLING sample_constants"
    by (simp add: sample_constants_def)
  from polling_decision [OF h, of True] h p show ?thesis by simp
qed


text \<open>
  C6, as the code has it. In webhook mode \<open>main\<close> registers the webhook once. In
  \<open>src/unnamed/part_000\<close> that call carries \<open>allowed_updates\<close> with exactly
  \<open>inline_query\<close>, \<open>chosen_inline_result\<close> and \<open>message\<close>; in the two variants in
  \<open>src/index.js\<close> it carries the URL alone and restricts nothing.
\<close>

theorem webhook_allowed_updates:
  assumes "\<not> USE_POLLING c"
  shows "registrations (fst (main c ok)) =
           [(template (map_option strip_slash (WEBHOOK_DOMAIN c)) @ WEBHOOK_PATH c,
             Some [''inline_query'', ''chosen_inline_result'', ''message''])] \<and>
         registrations (fst (main_index c ok)) =
           [(template (map_option strip_slash (WEBHOOK_DOMAIN c)) @ WEBHOOK_PATH c, None)] \<and>
         registrations (fst (main_index_v2 c ok)) =
           [(template (map_option strip_slash (WEBHOOK_DOMAIN c)) @ WEBHOOK_PATH c, None)]"
  using assms by (simp add: main_def main_index_v2_def main_index_def Let_def)

theorem webhook_allowed_updates_witness:
  "\<not> USE_POLLING sample_constants \<and>
   registrations (fst (main sample_constants True)) =
     [(''https://bot.example/telegraf/s3'', Some [''inline_query'', ''chosen_inline_result'', ''message''])]"
proof -
  have p: "\<not> USE_POLLING sample_constants"
    by (simp add: sample_constants_def)
  have u: "template (map_option strip_slash (WEBHOOK_DOMAIN sample_constants)) @ WEBHOOK_PATH sample_constants
             = ''https://bot.example/telegraf/s3''"
    by (simp add: sample_constants_def strip_slash_def template_def)
  from webhook_allowed_updates [OF p, of True] p u show ?thesis by simp
qed


text \<open>
  The claim as worded fails on both variants in \<open>src/index.js\<close>: in webhook mode the
  registration has no \<open>allowed_updates\<close>.
\<close>

theorem webhook_unrestricted_counterexample:
  "\<not> USE_POLLING sample_constants \<and>
   registrations (fst (main_index sample_constants True))
     = [(''https://bot.example/telegraf/s3'', None)] \<and>
   registrations (fst (main_index_v2 sample_constants True))
     = [(''https://bot.example/telegraf/s3'', None)]"
  by code_simp

section \<open>Claims about the commands\<close>

lemma replyWithIds_eq:
  "replyWithIds ctx = (if reply_ok ctx then Replied (Text (formatIds ctx)) else Swallowed)"
  by (simp add: replyWithIds_def reply_def)

lemma formatIds_both:
  assumes "ctx_chat ctx = Some ch" and "ctx_from ctx = Some fr"
  shows "formatIds ctx =
           ''chat_id: '' @ show_int (chat_id ch) @ '' ('' @ chat_type ch @ '')'' @ [CHR 0x0A] @
           ''user_id: '' @ show_int (sender_id fr) @
           (if truthy (username fr) then '' (@'' @ or_str (username fr) [] @ '')'' else [])"
  using assms by (simp add: formatIds_def)


text \<open>
  \<open>bot.start\<close> of the other two variants answers every payload with the usage text.
\<close>

lemma start_plain_ignores_payload:
  "start_plain (c\<lparr>startPayload := p\<rparr>) = start_plain c \<and> start_plain c = reply c UsageMessage"
  by (simp add: start_plain_def reply_def)

text \<open>
  C8, as the code has it. In the second variant in \<open>src/index.js\<close>, \<open>/start\<close> whose
  payload lower-cases to "id" or "getid" is handled by the very function that handles
  \<open>/id\<close>, which replies with the chat's identifier and type and the sender's identifier
  and user name; with any other payload, or none, the handler replies with the usage text.
  In \<open>src/unnamed/part_000\<close> and in the first variant in \<open>src/index.js\<close> the handler of
  \<open>/start\<close> reads no payload and replies with the usage text always.
\<close>

theorem start_payload:
  "(toLowerCase (or_str (startPayload ctx) []) = ''id'' \<or>
    toLowerCase (or_str (startPayload ctx) []) = ''getid'' \<longrightarrow> start ctx = id_command ctx) \<and>
   (toLowerCase (or_str (startPayload ctx) []) \<noteq> ''id'' \<and>
    toLowerCase (or_str (startPayload ctx) []) \<noteq> ''getid'' \<longrightarrow> start ctx = reply ctx UsageMessage) \<and>
   (startPayload ctx = None \<longrightarrow> start ctx = reply ctx UsageMessage) \<and>
   (reply_ok ctx \<longrightarrow> reply ctx UsageMessage = Replied UsageMessage) \<and>
   (reply_ok ctx \<longrightarrow> id_command ctx = Replied (Text (formatIds ctx))) \<and>
   (ctx_chat ctx = Some ch \<and> ctx_from ctx = Some fr \<longrightarrow>
      formatIds ctx =
        ''chat_id: '' @ show_int (chat_id ch) @ '' ('' @ chat_type ch @ '')'' @ [CHR 0x0A] @
        ''user_id: '' @ show_int (sender_id fr) @
        (if truthy (username fr) then '' (@'' @ or_str (username fr) [] @ '')'' else [])) \<and>
   start_plain ctx = reply ctx UsageMessage"
proof -
  have a: "toLowerCase (or_str (startPayload ctx) []) = ''id'' \<or>
    toLowerCase (or_str (startPayload ctx) []) = ''getid'' \<longrightarrow> start ctx = id_command ctx"
    by (simp add: start_def id_command_def Let_def)
  have b: "toLowerCase (or_str (startPayload ctx) []) \<noteq> ''id'' \<and>
    toLowerCase (or_str (startPayload ctx) []) \<noteq> ''getid'' \<longrightarrow> start ctx = reply ctx UsageMessage"
    by (simp add: start_def Let_def)
  have c: "startPayload ctx = None \<longrightarrow> start ctx = reply ctx UsageMessage"
    by (simp add: start_def Let_def or_str_def toLowerCase_def)
  have d: "reply_ok ctx \<longrightarrow> reply ctx UsageMessage = Replied UsageMessage"
    by (simp add: reply_def)
  have e: "reply_ok ctx \<longrightarrow> id_command ctx = Replied (Text (formatIds ctx))"
    by (simp add: id_command_def replyWithIds_eq)
  have f: "ctx_chat ctx = Some ch \<and> ctx_from ctx = Some fr \<longrightarrow>
      formatIds ctx =
        ''chat_id: '' @ show_int (chat_id ch) @ '' ('' @ chat_type ch @ '')'' @ [CHR 0x0A] @
        ''user_id: '' @ show_int (sender_id fr) @
        (if truthy (username fr) then '' (@'' @ or_str (username fr) [] @ '')'' else [])"
    using formatIds_both by blast
  have g: "start_plain ctx = reply ctx UsageMessage"
    by (simp add: start_plain_def)
  from a b c d e f g show ?thesis by (intro conjI)
qed

theorem start_payload_witness:
  "toLowerCase (or_str (startPayload sample_ctx) []) = ''getid'' \<and>
   start sample_ctx = id_command sample_ctx \<and>
   start sample_ctx =
     Replied (Text (''chat_id: -1001 (group)'' @ [CHR 0x0A] @ ''user_id: 42 (@bob)'')) \<and>
   start (sample_ctx\<lparr>startPayload := Some ''hello''\<rparr>) = Replied UsageMessage"
proof -
  have h: "toLowerCase (or_str (startPayload sample_ctx) []) = ''getid''"
    by code_simp
  have v: "start sample_ctx =
     Replied (Text (''chat_id: -1001 (group)'' @ [CHR 0x0A] @ ''user_id: 42 (@bob)''))"
    by code_simp
  have u: "start (sample_ctx\<lparr>startPayload := Some ''hello''\<rparr>) = Replied UsageMessage"
    by code_simp
  from start_payload [of sample_ctx] h have "start sample_ctx = id_command sample_ctx"
    by blast
  with h v u show ?thesis by simp
qed


text \<open>
  The claim as worded fails on \<open>src/unnamed/part_000\<close>: \<open>/start\<close> with the payload
  "GetID" is answered with the usage text, while \<open>/id\<close> in the same chat is answered with
  the identifiers.
\<close>

theorem start_plain_counterexample:
  "toLowerCase (or_str (startPayload sample_ctx) []) = ''getid'' \<and>
   start_plain sample_ctx = Replied UsageMessage \<and>
   id_command_part000 sample_ctx =
     Replied (Text (''chat_id: -1001'' @ [CHR 0x0A] @ ''user_id: 42 (@bob)''))"
  by code_simp


section \<open>Further properties of the matcher, the formatter and start-up\<close>

lemma length_slice0: "0 \<le> n \<Longrightarrow> length (slice0 xs n) \<le> nat n"
  by (simp add: slice0_take)

lemma length_compact: "length (compact xs) \<le> length xs"
  by (induction xs rule: compact.induct) auto

text \<open>
  The number of entries found never exceeds a non-negative limit, and the handler, which
  asks for 25, never answers with more than 25 results.
\<close>

theorem result_count_bounded:
  assumes "0 \<le> n"
  shows "length (searchAudios lib q (Some n)) \<le> nat n \<and>
         length (inline_query_results lib query) \<le> 25"
proof -
  have a: "length (searchAudios lib q' (Some m)) \<le> nat m" if "0 \<le> m" for q' m
    using that by (simp add: searchAudios_def Let_def length_slice0)
  have "length (inline_query_results lib query)
          \<le> length (searchAudios lib (Some (or_str query [])) (Some 25))"
    using length_compact [of "map (\<lambda>(idx, a). format_entry a idx)
        (enumerate 0 (searchAudios lib (Some (or_str query [])) (Some 25)))"]
    by (simp add: inline_query_results_def Let_def)
  also have "\<dots> \<le> 25" using a [of 25] by simp
  finally show ?thesis using a [OF assms] by simp
qed

theorem result_count_bounded_witness:
  "(0::int) \<le> 1 \<and> length (searchAudios [song_a, song_b] None (Some 1)) \<le> 1"
proof -
  have h: "(0::int) \<le> 1" by simp
  from result_count_bounded [OF h, of "[song_a, song_b]" None] show ?thesis by simp
qed

text \<open>
  The matcher of the second variant in \<open>src/index.js\<close> needs no condition on titles: a
  missing title is searched as the empty string.
\<close>

theorem searchAudios_v2_matches:
  assumes "q \<noteq> []"
  shows "searchAudios_v2 lib (Some q) (Some n) =
           (let ms = filter (\<lambda>a. \<exists>p s. toLowerCase (title_space_performer a) = p @ toLowerCase q @ s) lib
            in take (nat (if n < 0 then int (length ms) + n else n)) ms)"
proof -
  let ?P = "\<lambda>a. \<exists>p s. toLowerCase (title_space_performer a) = p @ toLowerCase q @ s"
  have nonempty: "normalize (Some q) \<noteq> []"
    using assms by (simp add: normalize_Some toLowerCase_Nil_iff)
  have same: "filter (\<lambda>a. includes_str (normalize (Some (hay_v2 a))) (normalize (Some q))) lib = filter ?P lib"
    by (simp add: includes_str_iff normalize_Some hay_v2_eq)
  have "searchAudios_v2 lib (Some q) (Some n) =
      slice0 (filter (\<lambda>a. includes_str (normalize (Some (hay_v2 a))) (normalize (Some q))) lib) n"
    using nonempty by (simp add: searchAudios_v2_def Let_def)
  also have "\<dots> = slice0 (filter ?P lib) n"
    by (simp only: same)
  also have "\<dots> = take (nat (if n < 0 then int (length (filter ?P lib)) + n else n)) (filter ?P lib)"
    by (rule slice0_take)
  finally show ?thesis
    unfolding Let_def .
qed

theorem searchAudios_v2_matches_witness:
  "''a'' \<noteq> [] \<and>
   searchAudios_v2 [song_a, song_b] (Some ''a'') (Some 25) = [song_a] \<and>
   filter (\<lambda>a. \<exists>p s. toLowerCase (title_space_performer a) = p @ toLowerCase ''a'' @ s) [song_a, song_b]
     = [song_a]"
proof -
  have q: "''a'' \<noteq> []" by simp
  have r: "searchAudios_v2 [song_a, song_b] (Some ''a'') (Some 25) = [song_a]"
    by code_simp
  have l: "length (filter P [song_a, song_b]) \<le> 2" for P
    by simp
  from searchAudios_v2_matches [OF q, of "[song_a, song_b]" 25] r
  have "take 25 (filter (\<lambda>a. \<exists>p s. toLowerCase (title_space_performer a) = p @ toLowerCase ''a'' @ s) [song_a, song_b])
      = [song_a]"
    by (simp add: Let_def)
  moreover have "take 25 (filter P [song_a, song_b]) = filter P [song_a, song_b]" for P
    using l [of P] by simp
  ultimately show ?thesis using q r by simp
qed

text \<open>
  Where the two matchers differ: an entry without a title is found by the query
  "undefined" in \<open>src/unnamed/part_000\<close>, and not in the second variant.
\<close>

theorem untitled_entry_searched_as_undefined:
  "searchAudios [no_fields\<lparr>file_id := Some ''F1''\<rparr>] (Some ''undefined'') None
     = [no_fields\<lparr>file_id := Some ''F1''\<rparr>] \<and>
   searchAudios_v2 [no_fields\<lparr>file_id := Some ''F1''\<rparr>] (Some ''undefined'') None = []"
  by code_simp


text \<open>
  The scenario of section 8 through the handler: the query "a" over Song A (by URL) and
  Song B (cached) answers with Song A alone, as URL audio.
\<close>

theorem scenario_song_a:
  "inline_query_results [song_a, song_b] (Some ''a'')
     = [UrlAudio ''0'' ''http://a'' ''Song A'' (Some ''X'') None]"
  by code_simp


text \<open>
  An entry tagged voice or document whose reference does not resolve is dropped even when
  it carries a \<open>url\<close>; the same entry without the tag is URL audio.
\<close>

theorem tagged_entry_without_reference_dropped:
  "format_entry (no_fields\<lparr>url := Some ''http://x'', tg_type := Some ''voice''\<rparr>) idx = None \<and>
   format_entry (no_fields\<lparr>url := Some ''http://x'', tg_type := Some ''document''\<rparr>) idx = None \<and>
   map_option shape_of (format_entry (no_fields\<lparr>url := Some ''http://x''\<rparr>) idx) = Some UrlAudioShape"
  by (simp add: format_entry_table voice_tagged_def document_tagged_def js_or_def truthy_def no_fields_def)


text \<open>
  Start-up is fatal without a bot token or without a readable catalog: the module exits
  with code 1 before \<open>main\<close> runs; with a token and a catalog it loads.
\<close>

theorem startup_failures:
  "(\<not> truthy (env_BOT_TOKEN env) \<longrightarrow> load_module env random_hex audios_json = Inl (Exit 1)) \<and>
   load_module env random_hex None = Inl (Exit 1) \<and>
   (truthy (env_BOT_TOKEN env) \<longrightarrow> (\<exists>c. load_module env random_hex (Some lib) = Inr c))"
  by (simp add: load_module_def Let_def)

theorem startup_failures_witness:
  "\<not> truthy (env_BOT_TOKEN (sample_env\<lparr>env_BOT_TOKEN := None\<rparr>)) \<and>
   load_module (sample_env\<lparr>env_BOT_TOKEN := None\<rparr>) ''00'' (Some [song_a]) = Inl (Exit 1)"
proof -
  have h: "\<not> truthy (env_BOT_TOKEN (sample_env\<lparr>env_BOT_TOKEN := None\<rparr>))"
    by (simp add: truthy_def)
  from startup_failures [of "sample_env\<lparr>env_BOT_TOKEN := None\<rparr>" "''00''" "Some [song_a]"] h
  show ?thesis by blast
qed



end
